theory Spec2Isabelle
  imports Complex_Main
begin

section \<open>Option pricing: binomial tree and Black-Scholes closed forms\<close>

text \<open>
  The repository holds two Python files: \<^verbatim>\<open>Binomial Tree/AmericanOption.py\<close> (one
  function, \<^verbatim>\<open>AmericanOption\<close>) and \<^verbatim>\<open>Black-Scholes/Black-Scholes.py\<close> (the classes
  \<^verbatim>\<open>BSmodel\<close>, \<^verbatim>\<open>VanillaEuro\<close>, \<^verbatim>\<open>SpreadOption\<close>, \<^verbatim>\<open>BinaryOption\<close>,
  \<^verbatim>\<open>BarrierOption\<close>).

  Numbers. The source computes with IEEE double precision. This development reads every
  float as a real number (\<^typ>\<open>real\<close>) and every operation as the exact one: rounding,
  overflow, \<^verbatim>\<open>inf\<close> and \<^verbatim>\<open>nan\<close> are outside the model. The step count \<^verbatim>\<open>N\<close> is a
  Python integer, an \<^typ>\<open>int\<close> here. Where Python raises on a real-valued input
  (division by zero, \<^verbatim>\<open>math.sqrt\<close> of a negative number, an index out of bounds) the
  model returns the error as a value.
\<close>

subsection \<open>Python errors and printed output\<close>

datatype error = ZeroDivisionError | ValueError | IndexError

text \<open>
  A call either raises (\<open>Inl\<close>) or returns a value together with the lines it has printed
  on standard output (\<open>Inr\<close>).
\<close>

type_synonym 'a printed = "'a \<times> string list"

subsection \<open>Two-dimensional arrays\<close>

text \<open>
  A numpy array of shape \<open>(m, m)\<close> is a list of \<open>m\<close> rows of \<open>m\<close> entries;
  \<^verbatim>\<open>A[i, j]\<close> is \<open>A ! i ! j\<close>. Every index the loops below use is in range
  (theorems \<open>stock_tree_build_shape\<close> and \<open>option_tree_build_shape\<close> keep the shape).
\<close>

type_synonym array2 = "real list list"

definition shape :: "nat \<Rightarrow> array2 \<Rightarrow> bool" where
  \<comment> \<open>\<^verbatim>\<open>A.shape == (m, m)\<close>\<close>
  "shape m A \<longleftrightarrow> length A = m \<and> list_all (\<lambda>row. length row = m) A"

definition zeros :: "nat \<Rightarrow> nat \<Rightarrow> array2" where
  \<comment> \<open>\<^verbatim>\<open>np.zeros([n, m])\<close>\<close>
  "zeros n m = replicate n (replicate m 0)"

definition set_cell :: "array2 \<Rightarrow> nat \<Rightarrow> nat \<Rightarrow> real \<Rightarrow> array2" where
  \<comment> \<open>\<^verbatim>\<open>A[i, j] = x\<close>\<close>
  "set_cell A i j x = A[i := (A ! i)[j := x]]"

definition column :: "array2 \<Rightarrow> nat \<Rightarrow> real list" where
  \<comment> \<open>\<^verbatim>\<open>A[:, j]\<close> read\<close>
  "column A j = map (\<lambda>row. row ! j) A"

definition set_column :: "array2 \<Rightarrow> nat \<Rightarrow> real list \<Rightarrow> array2" where
  \<comment> \<open>\<^verbatim>\<open>A[:, j] = xs\<close>\<close>
  "set_column A j xs = map2 (\<lambda>row x. row[j := x]) A xs"

subsection \<open>\<^verbatim>\<open>AmericanOption\<close>: the binomial tree\<close>

text \<open>
  Lines 31 to 35, the tree parameters \<^verbatim>\<open>dt, u, d, a, p\<close>. \<^verbatim>\<open>T/N\<close> raises
  \<^verbatim>\<open>ZeroDivisionError\<close> for \<open>N = 0\<close>, \<^verbatim>\<open>math.sqrt(dt)\<close> raises \<^verbatim>\<open>ValueError\<close> for
  \<open>dt < 0\<close>, and \<^verbatim>\<open>(a - d) / (u - d)\<close> raises \<^verbatim>\<open>ZeroDivisionError\<close> for \<open>u = d\<close>.
  \<open>u\<close> and \<open>a\<close> are exponentials, never zero, so \<^verbatim>\<open>1 / u\<close> does not raise.
\<close>

definition bitree_parameters ::
  "real \<Rightarrow> real \<Rightarrow> real \<Rightarrow> real \<Rightarrow> int \<Rightarrow> error + (real \<times> real \<times> real \<times> real \<times> real)" where
  "bitree_parameters T v r q N =
     (if N = 0 then Inl ZeroDivisionError
      else let dt = T / real_of_int N in
        if dt < 0 then Inl ValueError
        else let u = exp (v * sqrt dt);
                 d = 1 / u;
                 a = exp ((r - q) * dt) in
          if u - d = 0 then Inl ZeroDivisionError
          else let p = (a - d) / (u - d) in
            Inr (dt, u, d, a, p))"

text \<open>
  Lines 39 to 42: the stock tree, filled column by column; \<open>m\<close> is \<^verbatim>\<open>N + 1\<close>.
\<close>

definition stock_tree_build :: "real \<Rightarrow> real \<Rightarrow> real \<Rightarrow> nat \<Rightarrow> array2" where
  "stock_tree_build S0 u d m =
     fold (\<lambda>j stock_tree.
             fold (\<lambda>i stock_tree. set_cell stock_tree i j (S0 * (u ^ (j - i)) * (d ^ i)))
               [0..<j + 1] stock_tree)
       [0..<m] (zeros m m)"

text \<open>
  Lines 47 to 51 and 54 to 58. The two branches differ only in the exercise value
  (\<^verbatim>\<open>stock - K\<close> for a call, \<^verbatim>\<open>K - stock\<close> for a put), the argument \<open>ex\<close> here.
  \<open>n\<close> is \<^verbatim>\<open>N\<close>; \<^verbatim>\<open>range(N - 1, -1, -1)\<close> is \<open>rev [0..<n]\<close>.
\<close>

definition induction_column :: "real \<Rightarrow> real \<Rightarrow> nat \<Rightarrow> array2 \<Rightarrow> array2" where
  \<comment> \<open>the inner loop \<^verbatim>\<open>for i in range(0, j + 1)\<close>\<close>
  "induction_column a p j option_tree =
     fold (\<lambda>i option_tree.
             set_cell option_tree i j
               ((1 / a) * (p * option_tree ! i ! (j + 1)
                            + (1 - p) * option_tree ! (i + 1) ! (j + 1))))
       [0..<j + 1] option_tree"

definition exercise_floor :: "(real \<Rightarrow> real) \<Rightarrow> array2 \<Rightarrow> nat \<Rightarrow> array2 \<Rightarrow> array2" where
  \<comment> \<open>\<^verbatim>\<open>option_tree[:, j] = np.maximum(option_tree[:, j], ex(stock_tree[:, j]))\<close>\<close>
  "exercise_floor ex stock_tree j option_tree =
     set_column option_tree j
       (map2 max (column option_tree j) (map ex (column stock_tree j)))"

definition option_tree_build ::
  "(real \<Rightarrow> real) \<Rightarrow> real \<Rightarrow> real \<Rightarrow> nat \<Rightarrow> array2 \<Rightarrow> array2" where
  "option_tree_build ex a p n stock_tree =
     fold (\<lambda>j option_tree. exercise_floor ex stock_tree j (induction_column a p j option_tree))
       (rev [0..<n])
       (set_column (zeros (n + 1) (n + 1)) n (map (max 0) (map ex (column stock_tree n))))"

text \<open>
  The whole function. \<^verbatim>\<open>np.zeros([N + 1, N + 1])\<close> raises \<^verbatim>\<open>ValueError\<close> for a negative
  dimension. For \<open>N = -1\<close> the arrays have shape \<open>(0, 0)\<close> and \<^verbatim>\<open>option_tree[:, N]\<close>
  raises \<^verbatim>\<open>IndexError\<close>. Any other option type prints a line and returns \<open>-1\<close>.
\<close>

definition AmericanOption ::
  "real \<Rightarrow> real \<Rightarrow> real \<Rightarrow> real \<Rightarrow> real \<Rightarrow> real \<Rightarrow> int \<Rightarrow> string \<Rightarrow> error + real printed" where
  "AmericanOption S0 K T v r q N CallorPut =
     (case bitree_parameters T v r q N of
        Inl e \<Rightarrow> Inl e
      | Inr (dt, u, d, a, p) \<Rightarrow>
          if N + 1 < 0 then Inl ValueError
          else let stock_tree = stock_tree_build S0 u d (nat (N + 1)) in
            if CallorPut = ''call'' then
              (if N < 0 then Inl IndexError
               else Inr (option_tree_build (\<lambda>s. s - K) a p (nat N) stock_tree ! 0 ! 0, []))
            else if CallorPut = ''put'' then
              (if N < 0 then Inl IndexError
               else Inr (option_tree_build (\<lambda>s. K - s) a p (nat N) stock_tree ! 0 ! 0, []))
            else Inr (-1, [''Please input the right option type: ``call`` or ``put`` '']))"

subsection \<open>The lattice recursion of the specification\<close>

text \<open>
  The specification's words, as a recursion on the cell \<open>(i, j)\<close>: the stock price of the
  cell, the terminal value in column \<open>N\<close>, and for \<open>j < N\<close> the discounted expectation of
  the two successors, floored by the exercise value.
\<close>

definition lattice_stock :: "real \<Rightarrow> real \<Rightarrow> real \<Rightarrow> nat \<Rightarrow> nat \<Rightarrow> real" where
  "lattice_stock S0 u d i j = S0 * u ^ (j - i) * d ^ i"

function lattice_option ::
  "(real \<Rightarrow> real) \<Rightarrow> (nat \<Rightarrow> nat \<Rightarrow> real) \<Rightarrow> real \<Rightarrow> real \<Rightarrow> nat \<Rightarrow> nat \<Rightarrow> nat \<Rightarrow> real" where
  "lattice_option ex stock a p n i j =
     (if n \<le> j then max 0 (ex (stock i n))
      else max ((1 / a) * (p * lattice_option ex stock a p n i (j + 1)
                           + (1 - p) * lattice_option ex stock a p n (i + 1) (j + 1)))
               (ex (stock i j)))"
  by pat_completeness auto
termination
  by (relation "measure (\<lambda>(ex, stock, a, p, n, i, j). n - j)") auto

declare lattice_option.simps [simp del]

subsection \<open>The standard normal distribution function\<close>

text \<open>
  \<^verbatim>\<open>scipy.stats.norm.cdf\<close> is library code outside the repository. It is the
  distribution function of the normal law, \<open>\<Phi>((x - loc) / scale)\<close> with
  \<open>\<Phi>(x) = (1 + erf(x / \<surd>2)) / 2\<close>; the error function is given here by its power series
  \<open>erf(x) = 2/\<surd>\<pi> \<cdot> \<Sum>n. (-1)^n x^(2n+1) / (n! (2n+1))\<close>, which converges for every \<open>x\<close>
  (lemma \<open>erf_term_summable\<close>); lemma \<open>DERIV_Phi\<close> shows that the function so defined has the
  normal density as its derivative.
\<close>

definition erf_term :: "real \<Rightarrow> nat \<Rightarrow> real" where
  "erf_term x n = (- 1) ^ n * x ^ (2 * n + 1) / (fact n * real (2 * n + 1))"

definition erf :: "real \<Rightarrow> real" where
  "erf x = 2 / sqrt pi * (\<Sum>n. erf_term x n)"

definition Phi :: "real \<Rightarrow> real" where
  "Phi x = (1 + erf (x / sqrt 2)) / 2"

definition norm_cdf3 :: "real \<Rightarrow> real \<Rightarrow> real \<Rightarrow> real" where
  \<comment> \<open>\<^verbatim>\<open>ss.norm.cdf(x, loc, scale)\<close>\<close>
  "norm_cdf3 x loc scale = Phi ((x - loc) / scale)"

definition norm_cdf :: "real \<Rightarrow> real" where
  \<comment> \<open>\<^verbatim>\<open>ss.norm.cdf(x)\<close>, with the defaults \<^verbatim>\<open>loc=0, scale=1\<close>\<close>
  "norm_cdf x = norm_cdf3 x 0 1"

subsection \<open>\<^verbatim>\<open>BSmodel\<close>\<close>

text \<open>
  The class is a record; a subclass that adds attributes extends it. The methods take
  \<open>self\<close>. An attribute that \<^verbatim>\<open>__init__\<close> has not assigned yet holds \<^term>\<open>undefined\<close>;
  no method reads one (lemmas \<open>BSmodel_init_eq\<close> and \<open>BarrierOption_init_eq\<close> give the
  finished objects). \<^verbatim>\<open>**\<close> with the integer exponent 2 is \<open>x\<^sup>2\<close>, with a float exponent
  it is \<^term>\<open>(powr)\<close>, which agrees with Python for a positive base.
\<close>

record BSmodel =
  S0 :: real
  K :: real
  T :: real
  v :: real
  r :: real
  q :: real
  d1 :: real
  d2 :: real

definition BSmodel_d1 :: "'a BSmodel_scheme \<Rightarrow> real" where
  \<comment> \<open>\<^verbatim>\<open>_d1\<close>\<close>
  "BSmodel_d1 self =
     (ln (S0 self / K self) + (r self - q self + 0.5 * ((v self)\<^sup>2)) * T self)
       / (v self * sqrt (T self))"

definition BSmodel_d2 :: "'a BSmodel_scheme \<Rightarrow> real" where
  \<comment> \<open>\<^verbatim>\<open>_d2\<close>\<close>
  "BSmodel_d2 self =
     (ln (S0 self / K self) + (r self - q self - 0.5 * ((v self)\<^sup>2)) * T self)
       / (v self * sqrt (T self))"

definition BSmodel_init :: "real \<Rightarrow> real \<Rightarrow> real \<Rightarrow> real \<Rightarrow> real \<Rightarrow> real \<Rightarrow> BSmodel" where
  \<comment> \<open>\<^verbatim>\<open>BSmodel.__init__\<close>\<close>
  "BSmodel_init S0' K' T' v' r' q' =
     (let self = \<lparr>S0 = S0', K = K', T = T', v = v', r = r', q = q',
                  d1 = undefined, d2 = undefined\<rparr>;
          self = self\<lparr>d1 := BSmodel_d1 self\<rparr>;
          self = self\<lparr>d2 := BSmodel_d2 self\<rparr>
      in self)"

subsection \<open>\<^verbatim>\<open>VanillaEuro\<close>\<close>

text \<open>\<^verbatim>\<open>VanillaEuro\<close> adds no attribute: \<^verbatim>\<open>VanillaEuro(S0, K, T, v, r, q)\<close> is
  \<open>BSmodel_init S0 K T v r q\<close>.\<close>

definition vanilla_european_call :: "'a BSmodel_scheme \<Rightarrow> real" where
  "vanilla_european_call self =
     S0 self * exp (- q self * T self) * norm_cdf3 (d1 self) 0 1
     - K self * exp (- 1 * r self * T self) * norm_cdf3 (d2 self) 0 1"

definition vanilla_european_put :: "'a BSmodel_scheme \<Rightarrow> real" where
  "vanilla_european_put self =
     K self * exp (- 1 * r self * T self) * norm_cdf3 (- 1 * d2 self) 0 1
     - S0 self * exp (- q self * T self) * norm_cdf3 (- 1 * d1 self) 0 1"

subsection \<open>\<^verbatim>\<open>BinaryOption\<close>\<close>

definition bi_cashcall :: "'a BSmodel_scheme \<Rightarrow> real \<Rightarrow> real" where
  "bi_cashcall self Q = Q * exp (- 1 * r self * T self) * norm_cdf3 (d2 self) 0 1"

definition bi_cashput :: "'a BSmodel_scheme \<Rightarrow> real \<Rightarrow> real" where
  "bi_cashput self Q =
     Q * exp (- 1 * r self * T self) * norm_cdf3 (- 1 * d2 self) 0 1 * exp (- q self * T self)"

definition bi_assetcall :: "'a BSmodel_scheme \<Rightarrow> real" where
  "bi_assetcall self = S0 self * exp (- 1 * r self * T self) * norm_cdf3 (d1 self) 0 1"

definition bi_assetput :: "'a BSmodel_scheme \<Rightarrow> real" where
  "bi_assetput self =
     S0 self * exp (- 1 * r self * T self) * norm_cdf3 (- 1 * d1 self) 0 1
       * exp (- q self * T self)"

subsection \<open>\<^verbatim>\<open>BarrierOption\<close>\<close>

record BarrierOption = BSmodel +
  H :: real
  lamb :: real
  y :: real
  x1 :: real
  y1 :: real

definition BarrierOption_lambda :: "'a BarrierOption_scheme \<Rightarrow> real" where
  \<comment> \<open>\<^verbatim>\<open>_lambda\<close>\<close>
  "BarrierOption_lambda self = (r self - q self + (v self)\<^sup>2 / 2) / (v self)\<^sup>2"

definition BarrierOption_y :: "'a BarrierOption_scheme \<Rightarrow> real" where
  \<comment> \<open>\<^verbatim>\<open>_y\<close>\<close>
  "BarrierOption_y self =
     ln ((H self)\<^sup>2 / (S0 self * K self)) / (v self * sqrt (T self))
       + lamb self * v self * sqrt (T self)"

definition BarrierOption_x1 :: "'a BarrierOption_scheme \<Rightarrow> real" where
  \<comment> \<open>\<^verbatim>\<open>_x1\<close>\<close>
  "BarrierOption_x1 self =
     ln (S0 self / H self) / (v self * sqrt (T self)) + lamb self * v self * sqrt (T self)"

definition BarrierOption_y1 :: "'a BarrierOption_scheme \<Rightarrow> real" where
  \<comment> \<open>\<^verbatim>\<open>_y1\<close>\<close>
  "BarrierOption_y1 self =
     ln (H self / S0 self) / (v self * sqrt (T self)) + lamb self * v self * sqrt (T self)"

definition BarrierOption_init ::
  "real \<Rightarrow> real \<Rightarrow> real \<Rightarrow> real \<Rightarrow> real \<Rightarrow> real \<Rightarrow> real \<Rightarrow> BarrierOption" where
  \<comment> \<open>\<^verbatim>\<open>BarrierOption.__init__\<close>\<close>
  "BarrierOption_init S0' K' T' v' r' q' barrier =
     (let self = BSmodel.extend (BSmodel_init S0' K' T' v' r' q')
                   (BarrierOption.fields undefined undefined undefined undefined undefined);
          self = self\<lparr>H := barrier\<rparr>;
          self = self\<lparr>lamb := BarrierOption_lambda self\<rparr>;
          self = self\<lparr>y := BarrierOption_y self\<rparr>;
          self = self\<lparr>x1 := BarrierOption_x1 self\<rparr>;
          self = self\<lparr>y1 := BarrierOption_y1 self\<rparr>
      in self)"

text \<open>
  The four barrier methods. Each computes the vanilla value from a fresh
  \<^verbatim>\<open>VanillaEuro\<close> object, then the pair of knock-in and knock-out values, and selects by
  \<^verbatim>\<open>knock\<close>; any other \<^verbatim>\<open>knock\<close> prints a line and returns \<open>-1\<close>.
\<close>

definition select_knock :: "string \<Rightarrow> real \<Rightarrow> real \<Rightarrow> real printed" where
  \<comment> \<open>the closing \<^verbatim>\<open>if knock == 'out' ... elif knock == 'in' ... else\<close> of each method\<close>
  "select_knock knock out_price in_price =
     (if knock = ''out'' then (out_price, [])
      else if knock = ''in'' then (in_price, [])
      else (- 1, [''please input correct knock type'']))"

definition down_call :: "'a BarrierOption_scheme \<Rightarrow> string \<Rightarrow> real printed" where
  "down_call self knock =
     (let c = vanilla_european_call
                (BSmodel_init (S0 self) (K self) (T self) (v self) (r self) (q self));
          (cdi, cdo) =
            (if K self \<le> H self then
               let cdi = S0 self * exp (- q self * T self) * (H self / S0 self) powr (2 * lamb self)
                             * norm_cdf (y self)
                         - K self * exp (- r self * T self)
                             * (H self / S0 self) powr (2 * lamb self - 2)
                             * norm_cdf (y self - v self * sqrt (T self));
                   cdo = c - cdi
               in (cdi, cdo)
             else
               let cdo = S0 self * norm_cdf (x1 self) * exp (- q self * T self)
                         - K self * exp (- r self * T self)
                             * norm_cdf (x1 self - v self * sqrt (T self))
                         - S0 self * exp (- q self * T self)
                             * (H self / S0 self) powr (2 * lamb self) * norm_cdf (y1 self)
                         + K self * exp (- r self * T self)
                             * (H self / S0 self) powr (2 * lamb self - 2)
                             * norm_cdf (y1 self - v self * sqrt (T self));
                   cdi = c - cdo
               in (cdi, cdo))
      in select_knock knock cdo cdi)"

definition up_call :: "'a BarrierOption_scheme \<Rightarrow> string \<Rightarrow> real printed" where
  "up_call self knock =
     (let c = vanilla_european_call
                (BSmodel_init (S0 self) (K self) (T self) (v self) (r self) (q self));
          (cui, cuo) =
            (if H self \<le> K self then
               let cuo = 0;
                   cui = c
               in (cui, cuo)
             else
               let cui = S0 self * norm_cdf (x1 self) * exp (- q self * T self)
                         - K self * exp (- r self * T self)
                             * norm_cdf (x1 self - v self * sqrt (T self))
                         - S0 self * exp (- q self * T self)
                             * (H self / S0 self) powr (2 * lamb self)
                             * (norm_cdf (- y self) - norm_cdf (- y1 self))
                         + K self * exp (- r self * T self)
                             * (H self / S0 self) powr (2 * lamb self - 2)
                             * (norm_cdf (- y self + v self * sqrt (T self))
                                - norm_cdf (- y1 self + v self * sqrt (T self)));
                   cuo = c - cui
               in (cui, cuo))
      in select_knock knock cuo cui)"

text \<open>
  In \<^verbatim>\<open>up_put\<close>, the assignment to \<^verbatim>\<open>pui\<close> on line 245 ends at the end of the line (no
  backslash, no open bracket). Line 246, \<^verbatim>\<open>+ K * np.exp(...) * ...\<close>, is an expression
  statement (a unary plus applied to the product): it is evaluated and its value dropped.
\<close>

definition up_put :: "'a BarrierOption_scheme \<Rightarrow> string \<Rightarrow> real printed" where
  "up_put self knock =
     (let p = vanilla_european_put
                (BSmodel_init (S0 self) (K self) (T self) (v self) (r self) (q self));
          (pui, puo) =
            (if H self \<ge> K self then
               let pui = - S0 self * exp (- q self * T self)
                           * (H self / S0 self) powr (2 * lamb self) * norm_cdf (- y self);
                   dropped = K self * exp (- r self * T self)
                               * (H self / S0 self) powr (2 * lamb self - 2)
                               * norm_cdf (- y self + v self * sqrt (T self));
                   puo = p - pui
               in (pui, puo)
             else
               let puo = - S0 self * norm_cdf (- x1 self) * exp (- q self * T self)
                         + K self * exp (- r self * T self)
                             * norm_cdf (- x1 self + v self * sqrt (T self))
                         + S0 self * exp (- q self * T self)
                             * (H self / S0 self) powr (2 * lamb self) * norm_cdf (- y1 self)
                         - K self * exp (- r self * T self)
                             * (H self / S0 self) powr (2 * lamb self - 2)
                             * norm_cdf (- y1 self + v self * sqrt (T self));
                   pui = p - puo
               in (pui, puo))
      in select_knock knock puo pui)"

definition down_put :: "'a BarrierOption_scheme \<Rightarrow> string \<Rightarrow> real printed" where
  "down_put self knock =
     (let p = vanilla_european_put
                (BSmodel_init (S0 self) (K self) (T self) (v self) (r self) (q self));
          (pdi, pdo) =
            (if H self \<ge> K self then
               let pdo = 0;
                   pdi = p
               in (pdi, pdo)
             else
               let pdi = - S0 self * norm_cdf (- x1 self) * exp (- q self * T self)
                         + K self * exp (- r self * T self)
                             * norm_cdf (- x1 self + v self * sqrt (T self))
                         + S0 self * exp (- q self * T self)
                             * (H self / S0 self) powr (2 * lamb self)
                             * (norm_cdf (y self) - norm_cdf (- y1 self))
                         - K self * exp (- r self * T self)
                             * (H self / S0 self) powr (2 * lamb self - 2)
                             * (norm_cdf (y self - v self * sqrt (T self))
                                - norm_cdf (y1 self - v self * sqrt (T self)));
                   pdo = p - pdi
               in (pdi, pdo))
      in select_knock knock pdo pdi)"

section \<open>Arrays and loops\<close>

lemma shape_zeros: "shape m (zeros m m)"
  by (simp add: shape_def zeros_def list_all_iff)

lemma shape_set_cell: "shape m A \<Longrightarrow> shape m (set_cell A i j x)"
  by (cases "i < length A") (auto simp: shape_def set_cell_def list_all_length nth_list_update)

lemma shape_set_column: "shape m A \<Longrightarrow> length xs = m \<Longrightarrow> shape m (set_column A j xs)"
  by (auto simp: shape_def set_column_def list_all_iff dest: set_zip_leftD)

lemma shape_row: "shape m A \<Longrightarrow> i < m \<Longrightarrow> length (A ! i) = m"
  by (simp add: shape_def list_all_length)

lemma nth_set_cell:
  "shape m A \<Longrightarrow> i < m \<Longrightarrow> j < m \<Longrightarrow>
   set_cell A i j x ! i' ! j' = (if i' = i \<and> j' = j then x else A ! i' ! j')"
  by (auto simp: set_cell_def shape_def list_all_length nth_list_update)

lemma nth_set_column:
  "shape m A \<Longrightarrow> length xs = m \<Longrightarrow> i < m \<Longrightarrow> j < m \<Longrightarrow>
   set_column A j xs ! i ! j' = (if j' = j then xs ! i else A ! i ! j')"
  by (auto simp: set_column_def shape_def list_all_length nth_list_update)

lemma length_column: "length (column A j) = length A"
  by (simp add: column_def)

lemma nth_column: "i < length A \<Longrightarrow> column A j ! i = A ! i ! j"
  by (simp add: column_def)

lemma fold_set_cell:
  assumes "shape m A" "j < m" "n \<le> m"
    and dep: "\<And>B B' i. (\<forall>i' j'. j' \<noteq> j \<longrightarrow> B ! i' ! j' = B' ! i' ! j') \<Longrightarrow> g B i = g B' i"
  shows "shape m (fold (\<lambda>i B. set_cell B i j (g B i)) [0..<n] A)
       \<and> (\<forall>i' j'. fold (\<lambda>i B. set_cell B i j (g B i)) [0..<n] A ! i' ! j'
                   = (if j' = j \<and> i' < n then g A i' else A ! i' ! j'))"
  using \<open>n \<le> m\<close>
proof (induction n)
  case 0
  then show ?case using assms(1) by simp
next
  case (Suc n)
  let ?B = "fold (\<lambda>i B. set_cell B i j (g B i)) [0..<n] A"
  from Suc have sh: "shape m ?B"
    and cells: "\<And>i' j'. ?B ! i' ! j' = (if j' = j \<and> i' < n then g A i' else A ! i' ! j')"
    by simp_all
  have eq: "fold (\<lambda>i B. set_cell B i j (g B i)) [0..<Suc n] A = set_cell ?B n j (g ?B n)"
    by simp
  have "g ?B n = g A n"
    by (rule dep) (simp add: cells)
  with sh cells Suc.prems assms(2) show ?case
    unfolding eq by (auto simp: shape_set_cell nth_set_cell)
qed


lemma stock_loop:
  assumes "k \<le> m"
  shows "shape m (fold (\<lambda>j A. fold (\<lambda>i A. set_cell A i j (f i j)) [0..<j + 1] A) [0..<k] (zeros m m))
       \<and> (\<forall>i' j'. fold (\<lambda>j A. fold (\<lambda>i A. set_cell A i j (f i j)) [0..<j + 1] A) [0..<k] (zeros m m)
                     ! i' ! j'
                   = (if j' < k \<and> i' \<le> j' then f i' j' else zeros m m ! i' ! j'))"
proof -
  define F where "F = (\<lambda>j A. fold (\<lambda>i A. set_cell A i j (f i j)) [0..<j + 1] A)"
  have "shape m (fold F [0..<k] (zeros m m))
       \<and> (\<forall>i' j'. fold F [0..<k] (zeros m m) ! i' ! j'
                   = (if j' < k \<and> i' \<le> j' then f i' j' else zeros m m ! i' ! j'))"
    using assms
  proof (induction k)
    case 0
    then show ?case by (simp add: shape_zeros)
  next
    case (Suc k)
    define A where "A = fold F [0..<k] (zeros m m)"
    from Suc have sh: "shape m A"
      and cells: "\<And>i' j'. A ! i' ! j' = (if j' < k \<and> i' \<le> j' then f i' j' else zeros m m ! i' ! j')"
      unfolding A_def by simp_all
    have eq: "fold F [0..<Suc k] (zeros m m) = F k A"
      unfolding A_def by simp
    have inner: "shape m (F k A)
         \<and> (\<forall>i' j'. F k A ! i' ! j' = (if j' = k \<and> i' < k + 1 then f i' k else A ! i' ! j'))"
      unfolding F_def using sh Suc.prems
      by (intro fold_set_cell [where g = "\<lambda>B i. f i k"]) simp_all
    show ?case
      unfolding eq using inner by (auto simp: cells)
  qed
  then show ?thesis
    unfolding F_def .
qed

lemma stock_tree_build_shape: "shape m (stock_tree_build s u d m)"
  unfolding stock_tree_build_def
  by (rule stock_loop [where f = "\<lambda>i j. s * (u ^ (j - i)) * (d ^ i)", OF le_refl, THEN conjunct1])

lemma stock_tree_build_nth:
  assumes "i \<le> j" "j < m"
  shows "stock_tree_build s u d m ! i ! j = lattice_stock s u d i j"
proof -
  have "stock_tree_build s u d m ! i ! j
        = (if j < m \<and> i \<le> j then s * (u ^ (j - i)) * (d ^ i) else zeros m m ! i ! j)"
    unfolding stock_tree_build_def
    by (rule stock_loop [where f = "\<lambda>i j. s * (u ^ (j - i)) * (d ^ i)", OF le_refl,
          THEN conjunct2, rule_format])
  with assms show ?thesis
    by (simp add: lattice_stock_def)
qed

lemma induction_column_cells:
  assumes "shape m A" "j + 1 < m"
  shows "shape m (induction_column a p j A)"
    and "induction_column a p j A ! i' ! j'
           = (if j' = j \<and> i' \<le> j
              then (1 / a) * (p * A ! i' ! (j + 1) + (1 - p) * A ! (i' + 1) ! (j + 1))
              else A ! i' ! j')"
proof -
  have "shape m (induction_column a p j A)
      \<and> (\<forall>i' j'. induction_column a p j A ! i' ! j'
           = (if j' = j \<and> i' < j + 1
              then (1 / a) * (p * A ! i' ! (j + 1) + (1 - p) * A ! (i' + 1) ! (j + 1))
              else A ! i' ! j'))"
    unfolding induction_column_def using assms
    by (intro fold_set_cell
          [where g = "\<lambda>B i. (1 / a) * (p * B ! i ! (j + 1) + (1 - p) * B ! (i + 1) ! (j + 1))"])
       simp_all
  then show "shape m (induction_column a p j A)"
    and "induction_column a p j A ! i' ! j'
           = (if j' = j \<and> i' \<le> j
              then (1 / a) * (p * A ! i' ! (j + 1) + (1 - p) * A ! (i' + 1) ! (j + 1))
              else A ! i' ! j')"
    by (simp_all add: less_Suc_eq_le)
qed

lemma exercise_floor_cells:
  assumes "shape m A" "shape m st" "j < m"
  shows "shape m (exercise_floor ex st j A)"
    and "i < m \<Longrightarrow> exercise_floor ex st j A ! i ! j'
           = (if j' = j then max (A ! i ! j) (ex (st ! i ! j)) else A ! i ! j')"
proof -
  have len: "length A = m" "length st = m"
    using assms by (simp_all add: shape_def)
  then have l: "length (map2 max (column A j) (map ex (column st j))) = m"
    by (simp add: length_column)
  show "shape m (exercise_floor ex st j A)"
    unfolding exercise_floor_def using assms(1) l by (rule shape_set_column)
  assume "i < m"
  then show "exercise_floor ex st j A ! i ! j'
           = (if j' = j then max (A ! i ! j) (ex (st ! i ! j)) else A ! i ! j')"
    unfolding exercise_floor_def
    using nth_set_column [OF assms(1) l \<open>i < m\<close> assms(3)] len
    by (simp add: length_column nth_column)
qed

lemma terminal_cells:
  assumes "shape (n + 1) st"
  shows "shape (n + 1) (set_column (zeros (n + 1) (n + 1)) n (map (max 0) (map ex (column st n))))"
    and "i \<le> n \<Longrightarrow>
         set_column (zeros (n + 1) (n + 1)) n (map (max 0) (map ex (column st n))) ! i ! n
           = max 0 (ex (st ! i ! n))"
proof -
  have len: "length st = n + 1"
    using assms by (simp add: shape_def)
  then have l: "length (map (max 0) (map ex (column st n))) = n + 1"
    by (simp add: length_column)
  show "shape (n + 1) (set_column (zeros (n + 1) (n + 1)) n (map (max 0) (map ex (column st n))))"
    using shape_zeros l by (rule shape_set_column)
  assume "i \<le> n"
  then show "set_column (zeros (n + 1) (n + 1)) n (map (max 0) (map ex (column st n))) ! i ! n
           = max 0 (ex (st ! i ! n))"
    using nth_set_column [OF shape_zeros l, of i n n] len
    by (simp add: length_column nth_column)
qed

lemma option_loop:
  assumes st: "shape (n + 1) st"
    and stock: "\<And>i j. i \<le> j \<Longrightarrow> j \<le> n \<Longrightarrow> st ! i ! j = stock i j"
    and "k \<le> n"
  shows "shape (n + 1)
           (fold (\<lambda>j A. exercise_floor ex st j (induction_column a p j A)) (rev [k..<n])
              (set_column (zeros (n + 1) (n + 1)) n (map (max 0) (map ex (column st n)))))
       \<and> (\<forall>i j. k \<le> j \<and> j \<le> n \<and> i \<le> j \<longrightarrow>
             fold (\<lambda>j A. exercise_floor ex st j (induction_column a p j A)) (rev [k..<n])
               (set_column (zeros (n + 1) (n + 1)) n (map (max 0) (map ex (column st n)))) ! i ! j
             = lattice_option ex stock a p n i j)"
proof -
  define F where "F = (\<lambda>j A. exercise_floor ex st j (induction_column a p j A))"
  define Z where "Z = set_column (zeros (n + 1) (n + 1)) n (map (max 0) (map ex (column st n)))"
  have Z: "shape (n + 1) Z" "\<And>i. i \<le> n \<Longrightarrow> Z ! i ! n = max 0 (ex (st ! i ! n))"
    unfolding Z_def by (rule terminal_cells [OF st])+
  have "shape (n + 1) (fold F (rev [k..<n]) Z)
       \<and> (\<forall>i j. k \<le> j \<and> j \<le> n \<and> i \<le> j \<longrightarrow>
             fold F (rev [k..<n]) Z ! i ! j = lattice_option ex stock a p n i j)"
    using \<open>k \<le> n\<close>
  proof (induction rule: inc_induct)
    case base
    show ?case
    proof (intro conjI allI impI)
      show "shape (n + 1) (fold F (rev [n..<n]) Z)"
        using Z(1) by simp
      fix i j
      assume "n \<le> j \<and> j \<le> n \<and> i \<le> j"
      then have j: "j = n" and i: "i \<le> n" by simp_all
      have "lattice_option ex stock a p n i n = max 0 (ex (stock i n))"
        by (subst lattice_option.simps) simp
      then show "fold F (rev [n..<n]) Z ! i ! j = lattice_option ex stock a p n i j"
        using Z(2) [OF i] stock [of i n] i j by simp
    qed
  next
    case (step k)
    define A where "A = fold F (rev [Suc k..<n]) Z"
    from step.IH have sh: "shape (n + 1) A"
      and cells: "\<And>i j. Suc k \<le> j \<Longrightarrow> j \<le> n \<Longrightarrow> i \<le> j \<Longrightarrow> A ! i ! j = lattice_option ex stock a p n i j"
      unfolding A_def by blast+
    have eq: "fold F (rev [k..<n]) Z = exercise_floor ex st k (induction_column a p k A)"
      unfolding A_def F_def using \<open>k < n\<close> by (simp add: upt_conv_Cons)
    have k1: "k + 1 < n + 1" using \<open>k < n\<close> by simp
    note ic = induction_column_cells [OF sh k1, where a = a and p = p]
    have kk: "k < n + 1" using \<open>k < n\<close> by simp
    note ef = exercise_floor_cells [OF ic(1) st kk, where ex = ex]
    show ?case
      unfolding eq
    proof (intro conjI allI impI)
      show "shape (n + 1) (exercise_floor ex st k (induction_column a p k A))"
        by (rule ef(1))
      fix i j
      assume h: "k \<le> j \<and> j \<le> n \<and> i \<le> j"
      then have i: "i < n + 1" by simp
      show "exercise_floor ex st k (induction_column a p k A) ! i ! j
            = lattice_option ex stock a p n i j"
      proof (cases "j = k")
        case True
        with h have ik: "i \<le> k" by simp
        have "exercise_floor ex st k (induction_column a p k A) ! i ! k
              = max ((1 / a) * (p * A ! i ! (k + 1) + (1 - p) * A ! (i + 1) ! (k + 1)))
                    (ex (st ! i ! k))"
          using ef(2) [OF i, where j' = k] ic(2) [where i' = i and j' = k] ik by simp
        moreover have "A ! i ! (k + 1) = lattice_option ex stock a p n i (k + 1)"
          using cells [of "k + 1" i] ik \<open>k < n\<close> by simp
        moreover have "A ! (i + 1) ! (k + 1) = lattice_option ex stock a p n (i + 1) (k + 1)"
          using cells [of "k + 1" "i + 1"] ik \<open>k < n\<close> by simp
        moreover have "st ! i ! k = stock i k"
          using stock [of i k] ik \<open>k < n\<close> by simp
        moreover have "lattice_option ex stock a p n i k
              = max ((1 / a) * (p * lattice_option ex stock a p n i (k + 1)
                           + (1 - p) * lattice_option ex stock a p n (i + 1) (k + 1)))
                    (ex (stock i k))"
          using \<open>k < n\<close> by (subst lattice_option.simps) simp
        ultimately show ?thesis
          using True by (simp only:)
      next
        case False
        with h have "Suc k \<le> j" by simp
        with h have "A ! i ! j = lattice_option ex stock a p n i j"
          using cells [of j i] by simp
        moreover have "exercise_floor ex st k (induction_column a p k A) ! i ! j = A ! i ! j"
          using ef(2) [OF i, where j' = j] ic(2) [where i' = i and j' = j] False by simp
        ultimately show ?thesis by simp
      qed
    qed
  qed
  then show ?thesis
    unfolding F_def Z_def .
qed

lemma option_tree_build_shape:
  "shape (n + 1) st \<Longrightarrow> shape (n + 1) (option_tree_build ex a p n st)"
  unfolding option_tree_build_def
  by (rule option_loop [where stock = "\<lambda>i j. st ! i ! j" and k = 0, THEN conjunct1]) simp_all

lemma option_tree_build_root:
  assumes "shape (n + 1) st"
    and "\<And>i j. i \<le> j \<Longrightarrow> j \<le> n \<Longrightarrow> st ! i ! j = stock i j"
  shows "option_tree_build ex a p n st ! 0 ! 0 = lattice_option ex stock a p n 0 0"
  unfolding option_tree_build_def
  by (rule option_loop [OF assms, where k = 0, THEN conjunct2, rule_format]) simp_all

section \<open>The binomial tree\<close>

lemma up_factor_gt_1:
  assumes "0 < t" "0 < vol" "1 \<le> n"
  shows "1 < exp (vol * sqrt (t / real_of_int n))"
proof -
  have "0 < t / real_of_int n" using assms by simp
  then have "0 < vol * sqrt (t / real_of_int n)" using assms(2) by simp
  then show ?thesis by simp
qed

lemma bitree_parameters_valid:
  assumes "0 < t" "0 < vol" "1 \<le> n"
  shows "bitree_parameters t vol rate yld n
         = Inr (t / real_of_int n,
                exp (vol * sqrt (t / real_of_int n)),
                1 / exp (vol * sqrt (t / real_of_int n)),
                exp ((rate - yld) * (t / real_of_int n)),
                (exp ((rate - yld) * (t / real_of_int n)) - 1 / exp (vol * sqrt (t / real_of_int n)))
                  / (exp (vol * sqrt (t / real_of_int n)) - 1 / exp (vol * sqrt (t / real_of_int n))))"
proof -
  have n0: "n \<noteq> 0" using assms(3) by simp
  have "0 < t / real_of_int n" using assms by simp
  then have dt: "\<not> t / real_of_int n < 0" by linarith
  have u: "1 < exp (vol * sqrt (t / real_of_int n))"
    using assms by (rule up_factor_gt_1)
  then have "1 / exp (vol * sqrt (t / real_of_int n)) < 1" by simp
  with u have ud: "exp (vol * sqrt (t / real_of_int n)) - 1 / exp (vol * sqrt (t / real_of_int n)) \<noteq> 0"
    by linarith
  show ?thesis
    unfolding bitree_parameters_def Let_def using n0 dt ud by (simp only: if_False)
qed

lemma AmericanOption_valid:
  assumes "0 < t" "0 < vol" "1 \<le> n"
  shows "AmericanOption s k t vol rate yld n kind =
     (let dt = t / real_of_int n;
          u = exp (vol * sqrt dt);
          d = 1 / u;
          a = exp ((rate - yld) * dt);
          p = (a - d) / (u - d)
      in if kind = ''call''
         then Inr (lattice_option (\<lambda>x. x - k) (lattice_stock s u d) a p (nat n) 0 0, [])
         else if kind = ''put''
         then Inr (lattice_option (\<lambda>x. k - x) (lattice_stock s u d) a p (nat n) 0 0, [])
         else Inr (- 1, [''Please input the right option type: ``call`` or ``put`` '']))"
proof -
  define u where "u = exp (vol * sqrt (t / real_of_int n))"
  define a where "a = exp ((rate - yld) * (t / real_of_int n))"
  define p where "p = (a - 1 / u) / (u - 1 / u)"
  define st where "st = stock_tree_build s u (1 / u) (nat (n + 1))"
  have par: "bitree_parameters t vol rate yld n = Inr (t / real_of_int n, u, 1 / u, a, p)"
    unfolding u_def a_def p_def using assms by (rule bitree_parameters_valid)
  have m: "nat (n + 1) = nat n + 1" using assms(3) by simp
  have sh: "shape (nat n + 1) st"
    unfolding st_def m by (rule stock_tree_build_shape)
  have cells: "st ! i ! j = lattice_stock s u (1 / u) i j" if "i \<le> j" "j \<le> nat n" for i j
    unfolding st_def m using that by (intro stock_tree_build_nth) simp_all
  have root: "option_tree_build ex a p (nat n) st ! 0 ! 0
              = lattice_option ex (lattice_stock s u (1 / u)) a p (nat n) 0 0" for ex
    using sh cells by (rule option_tree_build_root)
  have e: "AmericanOption s k t vol rate yld n kind =
      (if kind = ''call''
         then Inr (option_tree_build (\<lambda>x. x - k) a p (nat n) st ! 0 ! 0, [])
         else if kind = ''put''
         then Inr (option_tree_build (\<lambda>x. k - x) a p (nat n) st ! 0 ! 0, [])
         else Inr (- 1, [''Please input the right option type: ``call`` or ``put`` '']))"
    unfolding AmericanOption_def par st_def using assms(3) by (simp add: Let_def)
  have "AmericanOption s k t vol rate yld n kind =
      (if kind = ''call''
         then Inr (lattice_option (\<lambda>x. x - k) (lattice_stock s u (1 / u)) a p (nat n) 0 0, [])
         else if kind = ''put''
         then Inr (lattice_option (\<lambda>x. k - x) (lattice_stock s u (1 / u)) a p (nat n) 0 0, [])
         else Inr (- 1, [''Please input the right option type: ``call`` or ``put`` '']))"
    using e by (simp only: root)
  then show ?thesis
    unfolding Let_def p_def a_def u_def .
qed

section \<open>The normal distribution function\<close>

lemma erf_term_summable: "summable (erf_term x)"
proof (rule summable_comparison_test)
  have "summable (\<lambda>n. \<bar>x\<bar> * (inverse (fact n) * (x\<^sup>2) ^ n))"
    by (rule summable_mult) (rule summable_exp)
  then show "summable (\<lambda>n. \<bar>x\<bar> * (inverse (fact n) * (x\<^sup>2) ^ n))" .
  show "\<exists>N. \<forall>n\<ge>N. norm (erf_term x n) \<le> \<bar>x\<bar> * (inverse (fact n) * (x\<^sup>2) ^ n)"
  proof (intro exI allI impI)
    fix n :: nat
    have "\<bar>erf_term x n\<bar> = \<bar>x\<bar> * (inverse (fact n) * (x\<^sup>2) ^ n) / real (2 * n + 1)"
      by (simp add: erf_term_def abs_mult power_abs power_mult divide_inverse)
    also have "\<dots> \<le> \<bar>x\<bar> * (inverse (fact n) * (x\<^sup>2) ^ n) / 1"
      by (rule divide_left_mono) (simp_all)
    finally show "norm (erf_term x n) \<le> \<bar>x\<bar> * (inverse (fact n) * (x\<^sup>2) ^ n)" by simp
  qed
qed

lemma erf_term_minus: "erf_term (- x) n = - erf_term x n"
  by (simp add: erf_term_def)

lemma erf_minus: "erf (- x) = - erf x"
  by (simp add: erf_def erf_term_minus suminf_minus [OF erf_term_summable])

lemma erf_zero: "erf 0 = 0"
  using erf_minus [of 0] by simp

lemma Phi_minus: "Phi (- x) = 1 - Phi x"
  by (simp add: Phi_def erf_minus field_simps)

lemma Phi_zero: "Phi 0 = 1 / 2"
  by (simp add: Phi_def erf_zero)

text \<open>
  The series is differentiated term by term: \<open>erf\<close> has the derivative \<open>2/\<surd>\<pi> \<cdot> exp(-x\<^sup>2)\<close>,
  so \<open>Phi\<close> has the normal density \<open>exp(-x\<^sup>2/2) / \<surd>(2\<pi>)\<close> as its derivative, with
  \<open>Phi 0 = 1/2\<close>.
\<close>

lemma erf_coeff_summable:
  "summable (\<lambda>n. (- 1) ^ n / (fact n * real (2 * n + 1)) * x ^ n)"
proof (rule summable_comparison_test)
  show "summable (\<lambda>n. inverse (fact n) * \<bar>x\<bar> ^ n)"
    by (rule summable_exp)
  show "\<exists>N. \<forall>n\<ge>N. norm ((- 1) ^ n / (fact n * real (2 * n + 1)) * x ^ n)
          \<le> inverse (fact n) * \<bar>x\<bar> ^ n"
  proof (intro exI allI impI)
    fix n :: nat
    have "norm ((- 1) ^ n / (fact n * real (2 * n + 1)) * x ^ n)
          = inverse (fact n) * \<bar>x\<bar> ^ n / real (2 * n + 1)"
      by (simp add: abs_mult power_abs divide_inverse)
    also have "\<dots> \<le> inverse (fact n) * \<bar>x\<bar> ^ n / 1"
      by (rule divide_left_mono) simp_all
    finally show "norm ((- 1) ^ n / (fact n * real (2 * n + 1)) * x ^ n)
          \<le> inverse (fact n) * \<bar>x\<bar> ^ n"
      by simp
  qed
qed

lemma erf_series_split:
  "(\<Sum>n. erf_term x n) = x * (\<Sum>n. (- 1) ^ n / (fact n * real (2 * n + 1)) * (x\<^sup>2) ^ n)"
proof -
  have eq: "erf_term x = (\<lambda>n. x * ((- 1) ^ n / (fact n * real (2 * n + 1)) * (x\<^sup>2) ^ n))"
    by (rule ext) (simp add: erf_term_def power_mult)
  show ?thesis
    unfolding eq by (rule suminf_mult [OF erf_coeff_summable])
qed

lemma erf_coeff_deriv_identity:
  "(\<Sum>n. (- 1) ^ n / (fact n * real (2 * n + 1)) * x ^ n)
   + 2 * x * (\<Sum>n. diffs (\<lambda>n. (- 1) ^ n / (fact n * real (2 * n + 1))) n * x ^ n)
   = exp (- x)"
proof -
  define c :: "nat \<Rightarrow> real" where "c = (\<lambda>n. (- 1) ^ n / (fact n * real (2 * n + 1)))"
  have s0: "(\<lambda>n. c n * x ^ n) sums (\<Sum>n. c n * x ^ n)"
    unfolding c_def by (rule summable_sums [OF erf_coeff_summable])
  have "summable (\<lambda>n. diffs c n * x ^ n)"
    unfolding c_def by (rule termdiff_converges_all) (rule erf_coeff_summable)
  then have "(\<lambda>n. of_nat n * c n * x ^ (n - Suc 0)) sums (\<Sum>n. diffs c n * x ^ n)"
    by (rule diffs_equiv)
  then have "(\<lambda>n. (2 * x) * (of_nat n * c n * x ^ (n - Suc 0))) sums ((2 * x) * (\<Sum>n. diffs c n * x ^ n))"
    by (rule sums_mult)
  moreover have "(2 * x) * (of_nat n * c n * x ^ (n - Suc 0)) = 2 * real n * c n * x ^ n" for n
    by (cases n) simp_all
  ultimately have s1: "(\<lambda>n. 2 * real n * c n * x ^ n) sums (2 * x * (\<Sum>n. diffs c n * x ^ n))"
    by simp
  have "(\<lambda>n. c n * x ^ n + 2 * real n * c n * x ^ n)
          sums ((\<Sum>n. c n * x ^ n) + 2 * x * (\<Sum>n. diffs c n * x ^ n))"
    using s0 s1 by (rule sums_add)
  moreover have "c n * x ^ n + 2 * real n * c n * x ^ n = (- x) ^ n /\<^sub>R fact n" for n
  proof -
    have nz: "1 + 2 * real n \<noteq> 0"
      using of_nat_0_le_iff [of n, where ?'a = real] by linarith
    have "c n = (- 1) ^ n / fact n / (1 + 2 * real n)"
      unfolding c_def by (simp add: add.commute)
    then have e: "c n * (1 + 2 * real n) = (- 1) ^ n / fact n"
      using nz by simp
    have "c n * x ^ n + 2 * real n * c n * x ^ n = (c n * (1 + 2 * real n)) * x ^ n"
      by (simp add: algebra_simps)
    also have "\<dots> = (- 1) ^ n / fact n * x ^ n"
      by (simp only: e)
    also have "\<dots> = (- x) ^ n /\<^sub>R fact n"
      by (simp add: power_minus [of x] divide_inverse mult.commute)
    finally show ?thesis .
  qed
  ultimately have "(\<lambda>n. (- x) ^ n /\<^sub>R fact n)
          sums ((\<Sum>n. c n * x ^ n) + 2 * x * (\<Sum>n. diffs c n * x ^ n))"
    by simp
  then have "(\<Sum>n. c n * x ^ n) + 2 * x * (\<Sum>n. diffs c n * x ^ n) = exp (- x)"
    using exp_converges [of "- x"] by (rule sums_unique2)
  then show ?thesis
    unfolding c_def .
qed

lemma DERIV_erf: "DERIV erf x :> 2 / sqrt pi * exp (- x\<^sup>2)"
proof -
  define c :: "nat \<Rightarrow> real" where "c = (\<lambda>n. (- 1) ^ n / (fact n * real (2 * n + 1)))"
  define g where "g = (\<lambda>t. \<Sum>n. c n * t ^ n)"
  define g' where "g' = (\<Sum>n. diffs c n * (x\<^sup>2) ^ n)"
  have dg: "DERIV g (x\<^sup>2) :> g'"
    unfolding g_def g'_def c_def
    by (rule termdiffs_strong_converges_everywhere) (rule erf_coeff_summable)
  have sq: "DERIV (\<lambda>x. x\<^sup>2) x :> 2 * x"
    using DERIV_pow [of 2 x] by simp
  have "DERIV (\<lambda>x. g (x\<^sup>2)) x :> g' * (2 * x)"
    using sq dg by (rule DERIV_chain')
  with DERIV_ident have "DERIV (\<lambda>x. x * g (x\<^sup>2)) x :> 1 * g (x\<^sup>2) + g' * (2 * x) * x"
    by (rule DERIV_mult)
  then have d: "DERIV (\<lambda>x. 2 / sqrt pi * (x * g (x\<^sup>2))) x
                  :> 2 / sqrt pi * (1 * g (x\<^sup>2) + g' * (2 * x) * x)"
    by (rule DERIV_cmult)
  have "g (x\<^sup>2) + 2 * x\<^sup>2 * g' = exp (- x\<^sup>2)"
    using erf_coeff_deriv_identity [of "x\<^sup>2"]
    unfolding g_def g'_def c_def .
  then have "1 * g (x\<^sup>2) + g' * (2 * x) * x = exp (- x\<^sup>2)"
    by (simp add: power2_eq_square algebra_simps)
  moreover have "erf = (\<lambda>x. 2 / sqrt pi * (x * g (x\<^sup>2)))"
    unfolding g_def c_def by (rule ext) (simp only: erf_def erf_series_split)
  ultimately show ?thesis
    using d by simp
qed

lemma DERIV_Phi: "DERIV Phi x :> exp (- x\<^sup>2 / 2) / sqrt (2 * pi)"
proof -
  have "DERIV (\<lambda>x. x / sqrt 2) x :> 1 / sqrt 2"
    using DERIV_ident by (rule DERIV_cdivide)
  then have "DERIV (\<lambda>x. erf (x / sqrt 2)) x
               :> 2 / sqrt pi * exp (- (x / sqrt 2)\<^sup>2) * (1 / sqrt 2)"
    using DERIV_erf by (rule DERIV_chain')
  with DERIV_const have "DERIV (\<lambda>x. 1 + erf (x / sqrt 2)) x
               :> 0 + 2 / sqrt pi * exp (- (x / sqrt 2)\<^sup>2) * (1 / sqrt 2)"
    by (rule DERIV_add)
  then have d: "DERIV (\<lambda>x. (1 + erf (x / sqrt 2)) / 2) x
               :> (0 + 2 / sqrt pi * exp (- (x / sqrt 2)\<^sup>2) * (1 / sqrt 2)) / 2"
    by (rule DERIV_cdivide)
  have "(0 + 2 / sqrt pi * exp (- (x / sqrt 2)\<^sup>2) * (1 / sqrt 2)) / 2
                 = exp (- x\<^sup>2 / 2) / sqrt (2 * pi)"
    by (simp add: power_divide real_sqrt_mult)
  moreover have "Phi = (\<lambda>x. (1 + erf (x / sqrt 2)) / 2)"
    by (rule ext) (simp add: Phi_def)
  ultimately show ?thesis
    using d by simp
qed

lemma norm_cdf3_std: "norm_cdf3 x 0 1 = Phi x"
  by (simp add: norm_cdf3_def)

lemma norm_cdf_std: "norm_cdf x = Phi x"
  by (simp add: norm_cdf_def norm_cdf3_def)

section \<open>The Black-Scholes objects\<close>

lemma BSmodel_init_eq:
  "BSmodel_init s k t vol rate yld =
     (\<lparr>S0 = s, K = k, T = t, v = vol, r = rate, q = yld,
      d1 = (ln (s / k) + (rate - yld + 0.5 * vol\<^sup>2) * t) / (vol * sqrt t),
      d2 = (ln (s / k) + (rate - yld - 0.5 * vol\<^sup>2) * t) / (vol * sqrt t)\<rparr>)"
  by (simp add: BSmodel_init_def BSmodel_d1_def BSmodel_d2_def)

lemma BarrierOption_init_eq:
  "BarrierOption_init s k t vol rate yld h =
     (\<lparr>S0 = s, K = k, T = t, v = vol, r = rate, q = yld,
      d1 = (ln (s / k) + (rate - yld + 0.5 * vol\<^sup>2) * t) / (vol * sqrt t),
      d2 = (ln (s / k) + (rate - yld - 0.5 * vol\<^sup>2) * t) / (vol * sqrt t),
      H = h,
      lamb = (rate - yld + vol\<^sup>2 / 2) / vol\<^sup>2,
      y = ln (h\<^sup>2 / (s * k)) / (vol * sqrt t) + (rate - yld + vol\<^sup>2 / 2) / vol\<^sup>2 * vol * sqrt t,
      x1 = ln (s / h) / (vol * sqrt t) + (rate - yld + vol\<^sup>2 / 2) / vol\<^sup>2 * vol * sqrt t,
      y1 = ln (h / s) / (vol * sqrt t) + (rate - yld + vol\<^sup>2 / 2) / vol\<^sup>2 * vol * sqrt t\<rparr>)"
  by (simp add: BarrierOption_init_def BSmodel_init_eq BSmodel.defs BarrierOption.defs
      BarrierOption_lambda_def BarrierOption_y_def BarrierOption_x1_def BarrierOption_y1_def)


lemma BSmodel_init_sel:
  "S0 (BSmodel_init s k t vol rate yld) = s"
  "K (BSmodel_init s k t vol rate yld) = k"
  "T (BSmodel_init s k t vol rate yld) = t"
  "v (BSmodel_init s k t vol rate yld) = vol"
  "r (BSmodel_init s k t vol rate yld) = rate"
  "q (BSmodel_init s k t vol rate yld) = yld"
  by (simp_all add: BSmodel_init_eq)

lemma BarrierOption_init_sel:
  "S0 (BarrierOption_init s k t vol rate yld h) = s"
  "K (BarrierOption_init s k t vol rate yld h) = k"
  "T (BarrierOption_init s k t vol rate yld h) = t"
  "v (BarrierOption_init s k t vol rate yld h) = vol"
  "r (BarrierOption_init s k t vol rate yld h) = rate"
  "q (BarrierOption_init s k t vol rate yld h) = yld"
  "H (BarrierOption_init s k t vol rate yld h) = h"
  by (simp_all add: BarrierOption_init_eq)

lemma select_knock_simps:
  "select_knock ''out'' out_price in_price = (out_price, [])"
  "select_knock ''in'' out_price in_price = (in_price, [])"
  by (simp_all add: select_knock_def)

lemma sqrt_cancel: "0 < vol \<Longrightarrow> 0 < t \<Longrightarrow> vol\<^sup>2 * t / (vol * sqrt t) = vol * sqrt (t::real)"
proof -
  assume h: "0 < vol" "0 < t"
  have "sqrt t * sqrt t = t" using h by simp
  then have "vol\<^sup>2 * t = (vol * sqrt t) * (vol * sqrt t)"
    by (simp add: power2_eq_square algebra_simps)
  moreover have "vol * sqrt t \<noteq> 0" using h by simp
  ultimately show ?thesis by simp
qed

section \<open>The claims\<close>

text \<open>
  In the statements below \<open>s\<close>, \<open>k\<close>, \<open>t\<close>, \<open>vol\<close>, \<open>rate\<close>, \<open>yld\<close>, \<open>h\<close> and \<open>n\<close> stand for
  the arguments \<^verbatim>\<open>S0\<close>, \<^verbatim>\<open>K\<close>, \<^verbatim>\<open>T\<close>, \<^verbatim>\<open>v\<close>, \<^verbatim>\<open>r\<close>, \<^verbatim>\<open>q\<close>, \<^verbatim>\<open>barrier\<close> and \<^verbatim>\<open>N\<close>
  (the source's names are the record fields).
\<close>

text \<open>
  Claim C1. For \<open>S0 > 0\<close>, \<open>K > 0\<close>, \<open>T > 0\<close>, \<open>v > 0\<close>, any \<open>r\<close>, \<open>q\<close> and \<open>N \<ge> 1\<close>,
  \<^verbatim>\<open>AmericanOption\<close> with \<^verbatim>\<open>'call'\<close> or \<^verbatim>\<open>'put'\<close> raises nothing, prints nothing and
  returns the root \<open>option[0][0]\<close> of the lattice recursion: stock prices
  \<open>S0 \<cdot> u^(j-i) \<cdot> d^i\<close>, terminal values \<open>max(0, stock - K)\<close> (call) or \<open>max(0, K - stock)\<close>
  (put) in column \<open>N\<close>, and in each earlier column the discounted expectation
  \<open>(1/a)(p \<cdot> option[i][j+1] + (1-p) \<cdot> option[i+1][j+1])\<close> floored by the exercise value.
\<close>

theorem AmericanOption_lattice_recursion:
  assumes "0 < s" "0 < k" "0 < t" "0 < vol" "1 \<le> n"
  shows "let dt = t / real_of_int n;
             u = exp (vol * sqrt dt);
             d = 1 / u;
             a = exp ((rate - yld) * dt);
             p = (a - d) / (u - d)
         in AmericanOption s k t vol rate yld n ''call''
              = Inr (lattice_option (\<lambda>x. x - k) (lattice_stock s u d) a p (nat n) 0 0, [])
          \<and> AmericanOption s k t vol rate yld n ''put''
              = Inr (lattice_option (\<lambda>x. k - x) (lattice_stock s u d) a p (nat n) 0 0, [])"
  using assms(3-5) by (simp add: AmericanOption_valid Let_def)

theorem AmericanOption_lattice_recursion_witness:
  "let dt = 1 / real_of_int 2;
       u = exp (3 / 10 * sqrt dt);
       d = 1 / u;
       a = exp ((1 / 20 - 0) * dt);
       p = (a - d) / (u - d)
   in AmericanOption 50 50 1 (3 / 10) (1 / 20) 0 2 ''call''
        = Inr (lattice_option (\<lambda>x. x - 50) (lattice_stock 50 u d) a p (nat 2) 0 0, [])
    \<and> AmericanOption 50 50 1 (3 / 10) (1 / 20) 0 2 ''put''
        = Inr (lattice_option (\<lambda>x. 50 - x) (lattice_stock 50 u d) a p (nat 2) 0 0, [])"
  using AmericanOption_lattice_recursion
    [where s = 50 and k = 50 and t = 1 and vol = "3 / 10" and n = 2 and rate = "1 / 20" and yld = 0]
  by simp

text \<open>
  Claim C2. For \<open>S0 > 0\<close>, \<open>K > 0\<close>, \<open>T > 0\<close>, \<open>v > 0\<close> and any \<open>r\<close>, \<open>q\<close>,
  \<^verbatim>\<open>vanilla_european_call\<close> returns \<open>S0 e^(-qT) \<Phi>(d1) - K e^(-rT) \<Phi>(d2)\<close> and
  \<^verbatim>\<open>vanilla_european_put\<close> returns \<open>K e^(-rT) \<Phi>(-d2) - S0 e^(-qT) \<Phi>(-d1)\<close>, with \<open>d1\<close>, \<open>d2\<close>
  the attributes the constructor computed.
\<close>

theorem vanilla_european_closed_form:
  assumes "0 < s" "0 < k" "0 < t" "0 < vol"
  shows "vanilla_european_call (BSmodel_init s k t vol rate yld)
           = s * exp (- (yld * t)) * Phi (d1 (BSmodel_init s k t vol rate yld))
             - k * exp (- (rate * t)) * Phi (d2 (BSmodel_init s k t vol rate yld))
       \<and> vanilla_european_put (BSmodel_init s k t vol rate yld)
           = k * exp (- (rate * t)) * Phi (- d2 (BSmodel_init s k t vol rate yld))
             - s * exp (- (yld * t)) * Phi (- d1 (BSmodel_init s k t vol rate yld))"
  by (simp add: vanilla_european_call_def vanilla_european_put_def norm_cdf3_std BSmodel_init_sel)

theorem vanilla_european_closed_form_witness:
  "vanilla_european_call (BSmodel_init 100 95 1 (1 / 5) (1 / 20) (1 / 50))
     = 100 * exp (- (1 / 50 * 1)) * Phi (d1 (BSmodel_init 100 95 1 (1 / 5) (1 / 20) (1 / 50)))
       - 95 * exp (- (1 / 20 * 1)) * Phi (d2 (BSmodel_init 100 95 1 (1 / 5) (1 / 20) (1 / 50)))
   \<and> vanilla_european_put (BSmodel_init 100 95 1 (1 / 5) (1 / 20) (1 / 50))
     = 95 * exp (- (1 / 20 * 1)) * Phi (- d2 (BSmodel_init 100 95 1 (1 / 5) (1 / 20) (1 / 50)))
       - 100 * exp (- (1 / 50 * 1)) * Phi (- d1 (BSmodel_init 100 95 1 (1 / 5) (1 / 20) (1 / 50)))"
  using vanilla_european_closed_form
    [where s = 100 and k = 95 and t = 1 and vol = "1 / 5" and rate = "1 / 20" and yld = "1 / 50"]
  by simp

text \<open>
  Claim C3. For each of \<^verbatim>\<open>down_call\<close>, \<^verbatim>\<open>up_call\<close>, \<^verbatim>\<open>up_put\<close>, \<^verbatim>\<open>down_put\<close> and all
  positive \<open>S0\<close>, \<open>K\<close>, \<open>T\<close>, \<open>v\<close>, \<open>H\<close>, the value returned with \<^verbatim>\<open>knock='in'\<close> plus the
  value returned with \<^verbatim>\<open>knock='out'\<close> is the vanilla European value of the same
  parameters: the call for the call families, the put for the put families.
\<close>

theorem barrier_in_out_parity:
  assumes "0 < s" "0 < k" "0 < t" "0 < vol" "0 < h"
  shows "fst (down_call (BarrierOption_init s k t vol rate yld h) ''in'')
           + fst (down_call (BarrierOption_init s k t vol rate yld h) ''out'')
         = vanilla_european_call (BSmodel_init s k t vol rate yld)
       \<and> fst (up_call (BarrierOption_init s k t vol rate yld h) ''in'')
           + fst (up_call (BarrierOption_init s k t vol rate yld h) ''out'')
         = vanilla_european_call (BSmodel_init s k t vol rate yld)
       \<and> fst (up_put (BarrierOption_init s k t vol rate yld h) ''in'')
           + fst (up_put (BarrierOption_init s k t vol rate yld h) ''out'')
         = vanilla_european_put (BSmodel_init s k t vol rate yld)
       \<and> fst (down_put (BarrierOption_init s k t vol rate yld h) ''in'')
           + fst (down_put (BarrierOption_init s k t vol rate yld h) ''out'')
         = vanilla_european_put (BSmodel_init s k t vol rate yld)"
proof (intro conjI)
  show "fst (down_call (BarrierOption_init s k t vol rate yld h) ''in'')
           + fst (down_call (BarrierOption_init s k t vol rate yld h) ''out'')
         = vanilla_european_call (BSmodel_init s k t vol rate yld)"
    by (simp add: down_call_def Let_def select_knock_simps BarrierOption_init_sel)
  show "fst (up_call (BarrierOption_init s k t vol rate yld h) ''in'')
           + fst (up_call (BarrierOption_init s k t vol rate yld h) ''out'')
         = vanilla_european_call (BSmodel_init s k t vol rate yld)"
    by (simp add: up_call_def Let_def select_knock_simps BarrierOption_init_sel)
  show "fst (up_put (BarrierOption_init s k t vol rate yld h) ''in'')
           + fst (up_put (BarrierOption_init s k t vol rate yld h) ''out'')
         = vanilla_european_put (BSmodel_init s k t vol rate yld)"
    by (simp add: up_put_def Let_def select_knock_simps BarrierOption_init_sel)
  show "fst (down_put (BarrierOption_init s k t vol rate yld h) ''in'')
           + fst (down_put (BarrierOption_init s k t vol rate yld h) ''out'')
         = vanilla_european_put (BSmodel_init s k t vol rate yld)"
    by (simp add: down_put_def Let_def select_knock_simps BarrierOption_init_sel)
qed

theorem barrier_in_out_parity_witness:
  "fst (down_call (BarrierOption_init 100 95 1 (1 / 5) (1 / 20) (1 / 50) 90) ''in'')
     + fst (down_call (BarrierOption_init 100 95 1 (1 / 5) (1 / 20) (1 / 50) 90) ''out'')
   = vanilla_european_call (BSmodel_init 100 95 1 (1 / 5) (1 / 20) (1 / 50))
   \<and> fst (up_call (BarrierOption_init 100 95 1 (1 / 5) (1 / 20) (1 / 50) 90) ''in'')
     + fst (up_call (BarrierOption_init 100 95 1 (1 / 5) (1 / 20) (1 / 50) 90) ''out'')
   = vanilla_european_call (BSmodel_init 100 95 1 (1 / 5) (1 / 20) (1 / 50))
   \<and> fst (up_put (BarrierOption_init 100 95 1 (1 / 5) (1 / 20) (1 / 50) 90) ''in'')
     + fst (up_put (BarrierOption_init 100 95 1 (1 / 5) (1 / 20) (1 / 50) 90) ''out'')
   = vanilla_european_put (BSmodel_init 100 95 1 (1 / 5) (1 / 20) (1 / 50))
   \<and> fst (down_put (BarrierOption_init 100 95 1 (1 / 5) (1 / 20) (1 / 50) 90) ''in'')
     + fst (down_put (BarrierOption_init 100 95 1 (1 / 5) (1 / 20) (1 / 50) 90) ''out'')
   = vanilla_european_put (BSmodel_init 100 95 1 (1 / 5) (1 / 20) (1 / 50))"
proof -
  have pos: "(0::real) < 100" "(0::real) < 95" "(0::real) < 1" "(0::real) < 1 / 5" "(0::real) < 90"
    by simp_all
  show ?thesis
    by (rule barrier_in_out_parity [OF pos])
qed

text \<open>
  Claim C4. Put-call parity: for \<open>S0 > 0\<close>, \<open>K > 0\<close>, \<open>T > 0\<close>, \<open>v > 0\<close> and any \<open>r\<close>, \<open>q\<close>,
  \<^verbatim>\<open>vanilla_european_call\<close> minus \<^verbatim>\<open>vanilla_european_put\<close> is
  \<open>S0 e^(-qT) - K e^(-rT)\<close>, exactly in real arithmetic.
\<close>

theorem put_call_parity:
  assumes "0 < s" "0 < k" "0 < t" "0 < vol"
  shows "vanilla_european_call (BSmodel_init s k t vol rate yld)
         - vanilla_european_put (BSmodel_init s k t vol rate yld)
         = s * exp (- (yld * t)) - k * exp (- (rate * t))"
  by (simp add: vanilla_european_call_def vanilla_european_put_def norm_cdf3_std BSmodel_init_sel
      Phi_minus algebra_simps)

theorem put_call_parity_witness:
  "vanilla_european_call (BSmodel_init 100 95 1 (1 / 5) (1 / 20) (1 / 50))
   - vanilla_european_put (BSmodel_init 100 95 1 (1 / 5) (1 / 20) (1 / 50))
   = 100 * exp (- (1 / 50 * 1)) - 95 * exp (- (1 / 20 * 1))"
proof -
  have pos: "(0::real) < 100" "(0::real) < 95" "(0::real) < 1" "(0::real) < 1 / 5"
    by simp_all
  show ?thesis
    by (rule put_call_parity [OF pos])
qed

text \<open>
  Claim C5. For \<open>S0 > 0\<close>, \<open>K > 0\<close>, \<open>T > 0\<close>, \<open>v > 0\<close> and a barrier \<open>H \<ge> K\<close>, \<^verbatim>\<open>up_put\<close>
  with \<^verbatim>\<open>knock='in'\<close> returns exactly \<open>-S0 e^(-qT) (H/S0)^(2\<lambda>) \<Phi>(-y)\<close> (the term on the next
  source line, \<open>+K e^(-rT) (H/S0)^(2\<lambda>-2) \<Phi>(-y + v\<surd>T)\<close>, does not contribute), and with
  \<^verbatim>\<open>knock='out'\<close> it returns the vanilla put value minus that quantity. \<open>\<lambda>\<close> and \<open>y\<close> are the
  attributes \<^verbatim>\<open>lamb\<close> and \<^verbatim>\<open>y\<close> of the object, whose values the last two conjuncts give.
\<close>

theorem up_put_high_barrier:
  assumes "0 < s" "0 < k" "0 < t" "0 < vol" "k \<le> h"
  shows "up_put (BarrierOption_init s k t vol rate yld h) ''in''
           = (- s * exp (- (yld * t))
                * (h / s) powr (2 * lamb (BarrierOption_init s k t vol rate yld h))
                * Phi (- y (BarrierOption_init s k t vol rate yld h)), [])
       \<and> up_put (BarrierOption_init s k t vol rate yld h) ''out''
           = (vanilla_european_put (BSmodel_init s k t vol rate yld)
              - (- s * exp (- (yld * t))
                   * (h / s) powr (2 * lamb (BarrierOption_init s k t vol rate yld h))
                   * Phi (- y (BarrierOption_init s k t vol rate yld h))), [])
       \<and> lamb (BarrierOption_init s k t vol rate yld h) = (rate - yld + vol\<^sup>2 / 2) / vol\<^sup>2
       \<and> y (BarrierOption_init s k t vol rate yld h)
           = ln (h\<^sup>2 / (s * k)) / (vol * sqrt t)
             + (rate - yld + vol\<^sup>2 / 2) / vol\<^sup>2 * vol * sqrt t"
proof (intro conjI)
  show "up_put (BarrierOption_init s k t vol rate yld h) ''in''
           = (- s * exp (- (yld * t))
                * (h / s) powr (2 * lamb (BarrierOption_init s k t vol rate yld h))
                * Phi (- y (BarrierOption_init s k t vol rate yld h)), [])"
    using assms(5)
    by (simp add: up_put_def Let_def select_knock_simps BarrierOption_init_sel norm_cdf_std)
  show "up_put (BarrierOption_init s k t vol rate yld h) ''out''
           = (vanilla_european_put (BSmodel_init s k t vol rate yld)
              - (- s * exp (- (yld * t))
                   * (h / s) powr (2 * lamb (BarrierOption_init s k t vol rate yld h))
                   * Phi (- y (BarrierOption_init s k t vol rate yld h))), [])"
    using assms(5)
    by (simp add: up_put_def Let_def select_knock_simps BarrierOption_init_sel norm_cdf_std)
  show "lamb (BarrierOption_init s k t vol rate yld h) = (rate - yld + vol\<^sup>2 / 2) / vol\<^sup>2"
    by (simp add: BarrierOption_init_eq)
  show "y (BarrierOption_init s k t vol rate yld h)
           = ln (h\<^sup>2 / (s * k)) / (vol * sqrt t)
             + (rate - yld + vol\<^sup>2 / 2) / vol\<^sup>2 * vol * sqrt t"
    by (simp add: BarrierOption_init_eq)
qed

theorem up_put_high_barrier_witness:
  "up_put (BarrierOption_init 100 95 1 (1 / 5) (1 / 20) (1 / 50) 110) ''in''
     = (- 100 * exp (- (1 / 50 * 1))
          * (110 / 100) powr (2 * lamb (BarrierOption_init 100 95 1 (1 / 5) (1 / 20) (1 / 50) 110))
          * Phi (- y (BarrierOption_init 100 95 1 (1 / 5) (1 / 20) (1 / 50) 110)), [])
   \<and> up_put (BarrierOption_init 100 95 1 (1 / 5) (1 / 20) (1 / 50) 110) ''out''
     = (vanilla_european_put (BSmodel_init 100 95 1 (1 / 5) (1 / 20) (1 / 50))
        - (- 100 * exp (- (1 / 50 * 1))
             * (110 / 100) powr (2 * lamb (BarrierOption_init 100 95 1 (1 / 5) (1 / 20) (1 / 50) 110))
             * Phi (- y (BarrierOption_init 100 95 1 (1 / 5) (1 / 20) (1 / 50) 110))), [])
   \<and> lamb (BarrierOption_init 100 95 1 (1 / 5) (1 / 20) (1 / 50) 110)
     = (1 / 20 - 1 / 50 + (1 / 5)\<^sup>2 / 2) / (1 / 5)\<^sup>2
   \<and> y (BarrierOption_init 100 95 1 (1 / 5) (1 / 20) (1 / 50) 110)
     = ln (110\<^sup>2 / (100 * 95)) / (1 / 5 * sqrt 1)
       + (1 / 20 - 1 / 50 + (1 / 5)\<^sup>2 / 2) / (1 / 5)\<^sup>2 * (1 / 5) * sqrt 1"
proof -
  have pos: "(0::real) < 100" "(0::real) < 95" "(0::real) < 1" "(0::real) < 1 / 5" "(95::real) \<le> 110"
    by simp_all
  show ?thesis
    by (rule up_put_high_barrier [OF pos])
qed

text \<open>
  Claim C6, as the specification states it: \<^verbatim>\<open>AmericanOption\<close> called with an option type
  outside \<^verbatim>\<open>'call'\<close>, \<^verbatim>\<open>'put'\<close> fails with an \<open>InvalidArgument\<close> error and does not return
  a numeric sentinel such as \<open>-1\<close>. The code has no such error: its last branch prints a
  line and returns \<open>-1\<close>, as the call with \<^verbatim>\<open>'straddle'\<close> below shows.
\<close>

theorem AmericanOption_straddle_returns_sentinel:
  "AmericanOption 50 50 1 (3 / 10) (1 / 20) 0 1000 ''straddle''
     = Inr (- 1, [''Please input the right option type: ``call`` or ``put`` ''])"
  by (simp add: AmericanOption_valid Let_def)

text \<open>
  Claim C6, amended: for \<open>T > 0\<close>, \<open>v > 0\<close> and \<open>N \<ge> 1\<close>, \<^verbatim>\<open>AmericanOption\<close> called with an
  option type other than \<^verbatim>\<open>'call'\<close> and \<^verbatim>\<open>'put'\<close> raises no error: it prints the line
  asking for the right option type and returns \<open>-1\<close>.
\<close>

theorem AmericanOption_other_kind_sentinel:
  assumes "0 < t" "0 < vol" "1 \<le> n" "kind \<noteq> ''call''" "kind \<noteq> ''put''"
  shows "AmericanOption s k t vol rate yld n kind
         = Inr (- 1, [''Please input the right option type: ``call`` or ``put`` ''])"
  using assms by (simp add: AmericanOption_valid Let_def)

theorem AmericanOption_other_kind_sentinel_witness:
  "AmericanOption 50 50 1 (3 / 10) (1 / 20) 0 3 ''Call''
     = Inr (- 1, [''Please input the right option type: ``call`` or ``put`` ''])"
proof -
  have h: "(0::real) < 1" "(0::real) < 3 / 10" "(1::int) \<le> 3" "''Call'' \<noteq> ''call''"
    "''Call'' \<noteq> ''put''"
    by simp_all
  show ?thesis
    by (rule AmericanOption_other_kind_sentinel [OF h])
qed

text \<open>
  Claim C7. For \<open>S0 > 0\<close>, \<open>K > 0\<close>, \<open>T > 0\<close>, \<open>v > 0\<close>, any \<open>r\<close>, \<open>q\<close> and any payout \<open>Q\<close>,
  \<^verbatim>\<open>bi_cashcall\<close> returns \<open>Q e^(-rT) \<Phi>(d2)\<close> and \<^verbatim>\<open>bi_cashput\<close> returns
  \<open>Q e^(-rT) e^(-qT) \<Phi>(-d2)\<close>: the put carries the factor \<open>e^(-qT)\<close>, the call does not.
\<close>

theorem bi_cash_closed_form:
  assumes "0 < s" "0 < k" "0 < t" "0 < vol"
  shows "bi_cashcall (BSmodel_init s k t vol rate yld) Q
           = Q * exp (- (rate * t)) * Phi (d2 (BSmodel_init s k t vol rate yld))
       \<and> bi_cashput (BSmodel_init s k t vol rate yld) Q
           = Q * exp (- (rate * t)) * exp (- (yld * t))
               * Phi (- d2 (BSmodel_init s k t vol rate yld))"
  by (simp add: bi_cashcall_def bi_cashput_def norm_cdf3_std BSmodel_init_sel)

theorem bi_cash_closed_form_witness:
  "bi_cashcall (BSmodel_init 100 95 1 (1 / 5) (1 / 20) (1 / 50)) 10
     = 10 * exp (- (1 / 20 * 1)) * Phi (d2 (BSmodel_init 100 95 1 (1 / 5) (1 / 20) (1 / 50)))
   \<and> bi_cashput (BSmodel_init 100 95 1 (1 / 5) (1 / 20) (1 / 50)) 10
     = 10 * exp (- (1 / 20 * 1)) * exp (- (1 / 50 * 1))
         * Phi (- d2 (BSmodel_init 100 95 1 (1 / 5) (1 / 20) (1 / 50)))"
proof -
  have pos: "(0::real) < 100" "(0::real) < 95" "(0::real) < 1" "(0::real) < 1 / 5"
    by simp_all
  show ?thesis
    by (rule bi_cash_closed_form [OF pos])
qed

text \<open>
  Claim C8. For \<open>S0 > 0\<close>, \<open>K > 0\<close>, \<open>T > 0\<close>, \<open>v > 0\<close> and any \<open>r\<close>, \<open>q\<close>, the constructor's
  \<open>d1\<close> is \<open>(ln(S0/K) + (r - q + v\<^sup>2/2) T) / (v \<surd>T)\<close> and its \<open>d2\<close>, computed by a formula
  of its own, equals \<open>d1 - v \<surd>T\<close>, exactly in real arithmetic.
\<close>

theorem BSmodel_d1_d2:
  assumes "0 < s" "0 < k" "0 < t" "0 < vol"
  shows "d1 (BSmodel_init s k t vol rate yld)
           = (ln (s / k) + (rate - yld + vol\<^sup>2 / 2) * t) / (vol * sqrt t)
       \<and> d2 (BSmodel_init s k t vol rate yld)
           = d1 (BSmodel_init s k t vol rate yld) - vol * sqrt t"
proof
  show "d1 (BSmodel_init s k t vol rate yld)
           = (ln (s / k) + (rate - yld + vol\<^sup>2 / 2) * t) / (vol * sqrt t)"
    by (simp add: BSmodel_init_eq)
  have "(ln (s / k) + (rate - yld - 0.5 * vol\<^sup>2) * t) / (vol * sqrt t)
        = ((ln (s / k) + (rate - yld + 0.5 * vol\<^sup>2) * t) - vol\<^sup>2 * t) / (vol * sqrt t)"
    by (simp add: algebra_simps)
  also have "\<dots> = (ln (s / k) + (rate - yld + 0.5 * vol\<^sup>2) * t) / (vol * sqrt t)
                   - vol\<^sup>2 * t / (vol * sqrt t)"
    by (rule diff_divide_distrib)
  also have "\<dots> = (ln (s / k) + (rate - yld + 0.5 * vol\<^sup>2) * t) / (vol * sqrt t)
                   - vol * sqrt t"
    using assms by (simp only: sqrt_cancel)
  finally show "d2 (BSmodel_init s k t vol rate yld)
           = d1 (BSmodel_init s k t vol rate yld) - vol * sqrt t"
    by (simp add: BSmodel_init_eq)
qed

theorem BSmodel_d1_d2_witness:
  "d1 (BSmodel_init 100 95 1 (1 / 5) (1 / 20) (1 / 50))
     = (ln (100 / 95) + (1 / 20 - 1 / 50 + (1 / 5)\<^sup>2 / 2) * 1) / (1 / 5 * sqrt 1)
   \<and> d2 (BSmodel_init 100 95 1 (1 / 5) (1 / 20) (1 / 50))
     = d1 (BSmodel_init 100 95 1 (1 / 5) (1 / 20) (1 / 50)) - 1 / 5 * sqrt 1"
proof -
  have pos: "(0::real) < 100" "(0::real) < 95" "(0::real) < 1" "(0::real) < 1 / 5"
    by simp_all
  show ?thesis
    by (rule BSmodel_d1_d2 [OF pos])
qed

text \<open>
  Claim C9. For positive \<open>S0\<close>, \<open>K\<close>, \<open>T\<close>, \<open>v\<close>, \<open>H\<close>: if \<open>H \<le> K\<close> then \<^verbatim>\<open>up_call\<close> returns
  \<open>0\<close> for \<^verbatim>\<open>knock='out'\<close> and the vanilla call value for \<^verbatim>\<open>knock='in'\<close>; if \<open>H \<ge> K\<close> then
  \<^verbatim>\<open>down_put\<close> returns \<open>0\<close> for \<^verbatim>\<open>knock='out'\<close> and the vanilla put value for
  \<^verbatim>\<open>knock='in'\<close>. Nothing is printed.
\<close>

theorem barrier_degenerate_branches:
  assumes "0 < s" "0 < k" "0 < t" "0 < vol" "0 < h"
  shows "(h \<le> k \<longrightarrow>
            up_call (BarrierOption_init s k t vol rate yld h) ''out'' = (0, [])
          \<and> up_call (BarrierOption_init s k t vol rate yld h) ''in''
              = (vanilla_european_call (BSmodel_init s k t vol rate yld), []))
       \<and> (h \<ge> k \<longrightarrow>
            down_put (BarrierOption_init s k t vol rate yld h) ''out'' = (0, [])
          \<and> down_put (BarrierOption_init s k t vol rate yld h) ''in''
              = (vanilla_european_put (BSmodel_init s k t vol rate yld), []))"
  by (simp add: up_call_def down_put_def Let_def select_knock_simps BarrierOption_init_sel)

theorem barrier_degenerate_branches_witness:
  "up_call (BarrierOption_init 100 95 1 (1 / 5) (1 / 20) (1 / 50) 95) ''out'' = (0, [])
   \<and> up_call (BarrierOption_init 100 95 1 (1 / 5) (1 / 20) (1 / 50) 95) ''in''
       = (vanilla_european_call (BSmodel_init 100 95 1 (1 / 5) (1 / 20) (1 / 50)), [])
   \<and> down_put (BarrierOption_init 100 95 1 (1 / 5) (1 / 20) (1 / 50) 95) ''out'' = (0, [])
   \<and> down_put (BarrierOption_init 100 95 1 (1 / 5) (1 / 20) (1 / 50) 95) ''in''
       = (vanilla_european_put (BSmodel_init 100 95 1 (1 / 5) (1 / 20) (1 / 50)), [])"
proof -
  have pos: "(0::real) < 100" "(0::real) < 95" "(0::real) < 1" "(0::real) < 1 / 5" "(0::real) < 95"
    by simp_all
  have le: "(95::real) \<le> 95"
    by simp
  show ?thesis
    using barrier_degenerate_branches [OF pos, of "1 / 20" "1 / 50"] le by blast
qed

text \<open>
  Claim C10. For \<open>T > 0\<close>, \<open>v > 0\<close>, any \<open>r\<close>, \<open>q\<close> and \<open>N \<ge> 1\<close>, the tree parameters are
  computed without an error and are \<open>dt = T/N\<close>, \<open>u = exp(v \<surd>dt)\<close>, \<open>d = 1/u\<close>,
  \<open>a = exp((r - q) dt)\<close>, \<open>p = (a - d)/(u - d)\<close>; they satisfy \<open>0 < d < 1 < u\<close>, and
  \<open>0 < p < 1\<close> whenever \<open>d < a < u\<close>.
\<close>

theorem bitree_parameters_invariant:
  assumes "0 < t" "0 < vol" "1 \<le> n"
  shows "let dt = t / real_of_int n;
             u = exp (vol * sqrt dt);
             d = 1 / u;
             a = exp ((rate - yld) * dt);
             p = (a - d) / (u - d)
         in bitree_parameters t vol rate yld n = Inr (dt, u, d, a, p)
          \<and> 0 < d \<and> d < 1 \<and> 1 < u
          \<and> (d < a \<and> a < u \<longrightarrow> 0 < p \<and> p < 1)"
proof -
  define u where "u = exp (vol * sqrt (t / real_of_int n))"
  define a where "a = exp ((rate - yld) * (t / real_of_int n))"
  have u: "1 < u" unfolding u_def using assms by (rule up_factor_gt_1)
  then have d: "0 < 1 / u" "1 / u < 1" by simp_all
  have p: "0 < (a - 1 / u) / (u - 1 / u) \<and> (a - 1 / u) / (u - 1 / u) < 1" if "1 / u < a" "a < u"
  proof -
    have "0 < u - 1 / u" using u d by linarith
    then show ?thesis using that by simp
  qed
  have "bitree_parameters t vol rate yld n = Inr (t / real_of_int n, u, 1 / u, a, (a - 1 / u) / (u - 1 / u))"
    unfolding u_def a_def using assms by (rule bitree_parameters_valid)
  with u d p show ?thesis
    unfolding Let_def u_def a_def by blast
qed

theorem bitree_parameters_invariant_witness:
  "let dt = 1 / real_of_int 1;
       u = exp (1 * sqrt dt);
       d = 1 / u;
       a = exp ((0 - 0) * dt);
       p = (a - d) / (u - d)
   in bitree_parameters 1 1 0 0 1 = Inr (dt, u, d, a, p)
    \<and> 0 < d \<and> d < 1 \<and> 1 < u
    \<and> d < a \<and> a < u \<and> 0 < p \<and> p < 1"
proof -
  have h: "(0::real) < 1" "(1::int) \<le> 1"
    by simp_all
  have a: "1 / exp (1 * sqrt (1 / real_of_int 1)) < exp ((0 - 0) * (1 / real_of_int 1))"
    "exp ((0 - 0) * (1 / real_of_int 1)) < exp (1 * sqrt (1 / real_of_int 1))"
    by simp_all
  show ?thesis
    unfolding Let_def
    using bitree_parameters_invariant [OF h(1) h(1) h(2), of 0 0, unfolded Let_def] a
    by blast
qed

end
